theory Spec2Isabelle
  imports Complex_Main
begin

section \<open>The counting event (engine.py, class CounterEvent)\<close>

text \<open>
  \<^verbatim>\<open>CounterEvent\<close> wraps an \<^verbatim>\<open>asyncio.Event\<close> and an integer. Of the asyncio event only
  its flag matters here: \<^verbatim>\<open>Event.set()\<close> raises the flag and wakes every waiter,
  \<^verbatim>\<open>Event.clear()\<close> lowers it, \<^verbatim>\<open>Event.wait()\<close> returns exactly when the flag is up.
  Python integers are unbounded, so the counter is an \<open>int\<close>.
\<close>

record CounterEvent =
  counter :: int
  event :: bool

definition CounterEvent_init :: CounterEvent where
  "CounterEvent_init = \<lparr>counter = 0, event = False\<rparr>"

definition is_set :: "CounterEvent \<Rightarrow> bool" where
  "is_set ev = event ev"

text \<open>
  \<^verbatim>\<open>def set(self):
      if self._counter > 0: self._counter -= 1
      if self._counter == 0: self._event.set()\<close>
\<close>

definition CounterEvent_set :: "CounterEvent \<Rightarrow> CounterEvent" where
  "CounterEvent_set ev =
     (let ev1 = (if counter ev > 0 then ev\<lparr>counter := counter ev - 1\<rparr> else ev)
      in (if counter ev1 = 0 then ev1\<lparr>event := True\<rparr> else ev1))"

text \<open>
  \<^verbatim>\<open>def clear(self):
      if self._counter == 0 and self._event.is_set(): self._event.clear()
      self._counter += 1\<close>
\<close>

definition CounterEvent_clear :: "CounterEvent \<Rightarrow> CounterEvent" where
  "CounterEvent_clear ev =
     (let ev1 = (if counter ev = 0 \<and> is_set ev then ev\<lparr>event := False\<rparr> else ev)
      in ev1\<lparr>counter := counter ev1 + 1\<rparr>)"

text \<open>
  The two fields are private: an event object is only ever changed by calls of
  \<^verbatim>\<open>set\<close> and \<^verbatim>\<open>clear\<close>. A history of such calls, applied to a fresh object in order.
\<close>

datatype event_call = CallSet | CallClear

fun event_step :: "CounterEvent \<Rightarrow> event_call \<Rightarrow> CounterEvent" where
  "event_step ev CallSet = CounterEvent_set ev"
| "event_step ev CallClear = CounterEvent_clear ev"

fun event_run :: "CounterEvent \<Rightarrow> event_call list \<Rightarrow> CounterEvent" where
  "event_run ev [] = ev"
| "event_run ev (c # cs) = event_run (event_step ev c) cs"

definition event_after :: "event_call list \<Rightarrow> CounterEvent" where
  "event_after cs = event_run CounterEvent_init cs"

definition event_inv :: "CounterEvent \<Rightarrow> bool" where
  "event_inv ev = (0 \<le> counter ev \<and> \<not> (0 < counter ev \<and> event ev))"

section \<open>The prefill/decode decision (engine.py, class InputsMakerAsync)\<close>

text \<open>
  \<^verbatim>\<open>EngineRole\<close> is declared in \<^verbatim>\<open>lmdeploy.pytorch.disagg.config\<close>; its three members are
  the roles the configuration option \<^verbatim>\<open>role\<close> ranges over.
\<close>

datatype EngineRole = Hybrid | Prefill | Decode








section \<open>Responses, requests and sessions (engine.py, class Engine)\<close>

text \<open>
  The enumerations \<^verbatim>\<open>ResponseType\<close> (\<^verbatim>\<open>lmdeploy.messages\<close>) and \<^verbatim>\<open>MessageStatus\<close>
  (\<^verbatim>\<open>lmdeploy.pytorch.messages\<close>) are declared outside the files at hand; their members are
  the response codes and the sequence states the specification lists.
\<close>

datatype ResponseType =
  SUCCESS | FINISH | SESSION_REPEAT | SESSION_NOT_EXIST
  | INPUT_LENGTH_ERROR | INTERNAL_ENGINE_ERROR | CANCEL

datatype MessageStatus =
  WAITING | RUNNING | LOCKED | WAITING_MIGRATION | MIGRATION_LOCKED | TO_BE_MIGRATED | STOPPED

text \<open>
  Exceptions are values: a call either returns its state or raises, and a raise keeps
  the state as the Python objects are at that moment (what earlier iterations of a loop
  have written stays written).
\<close>

datatype py_error = AssertionError | KeyError | TypeError | StopIteration

datatype 'a outcome = Returned 'a | Raised py_error 'a

fun is_raised :: "'a outcome \<Rightarrow> bool" where
  "is_raised (Returned s) = False"
| "is_raised (Raised e s) = True"

fun state_of :: "'a outcome \<Rightarrow> 'a" where
  "state_of (Returned s) = s"
| "state_of (Raised e s) = s"

text \<open>
  Tensors, multimodal attachments, logits processors and metrics are opaque to the
  engine loop; the model keeps them as numbers that stand for the objects.
\<close>

type_synonym opaque = nat

text \<open>
  A \<^verbatim>\<open>Response\<close> is a mutable object shared between the request that carries it, the
  sequence that keeps it (\<^verbatim>\<open>msg.resp = req.resp\<close>) and every \<^verbatim>\<open>InferOutput\<close> built from
  that sequence. The model keeps the objects in a store indexed by references.
\<close>

type_synonym resp_ref = nat

record RespData =
  data_token_ids :: "int list"
  data_cache_block_ids :: "int list option"

record Response =
  rtype :: ResponseType
  rdata :: "RespData option"
  err_msg :: string

record SamplingParam =
  max_new_tokens :: int
  min_new_tokens :: int
  repetition_penalty :: real
  logits_processors :: "opaque list option"
  response_format :: "opaque option"
  out_logits :: bool

record MigrationRequest =
  protocol :: opaque
  remote_engine_id :: int
  remote_session_id :: int
  remote_block_ids :: "int list"
  remote_token_id :: int
  is_dummy_prefill :: bool

record SchedulerSequence =
  seq_session_id :: int
  all_ids :: "int list"
  num_new_tokens :: int
  sampling_param :: SamplingParam
  adapter_name :: "string option"
  return_logits :: bool
  multimodals :: "opaque list option"
  input_embeddings :: "opaque list option"
  migration_request :: "MigrationRequest option"
  resp_cache :: bool
  preserve_cache :: bool
  status :: MessageStatus
  resp :: "resp_ref option"
  block_table :: "int list"

text \<open>
  \<^verbatim>\<open>sess.sequences\<close> is a dict from sequence ids to sequences; the engine reads its
  length, its values in insertion order and the first of them.
\<close>

record SchedulerSession =
  sequences :: "SchedulerSequence list"

record SessionRequest =
  ctl_session_id :: int
  ctl_response :: "bool option"
  ctl_resp :: resp_ref

record MessageRequest =
  msg_session_id :: int
  token_ids :: "int list"
  req_sampling_param :: SamplingParam
  req_adapter_name :: "string option"
  input_multimodals :: "opaque list option"
  req_input_embeddings :: "opaque list option"
  req_migration_request :: "MigrationRequest option"
  with_cache :: bool
  req_preserve_cache :: bool
  msg_resp :: resp_ref

text \<open>
  The part of the engine the request callbacks touch: the scheduler's session table, the
  store of response objects, the responses handed to the request manager so far (each
  with the content of the response object at that moment), and the fields of the
  configuration the callbacks read.
\<close>

record Engine =
  sessions :: "int \<rightharpoonup> SchedulerSession"
  responses :: "resp_ref \<Rightarrow> Response"
  posted :: "(resp_ref \<times> Response) list"
  max_session_len :: int
  migration_event :: bool
  input_processor :: "(int list \<Rightarrow> opaque list \<Rightarrow> int list \<times> opaque list) option"
  disable_vision_encoder :: bool

text \<open>\<^verbatim>\<open>req.data.get('response', True)\<close>: an absent key means a response is wanted.\<close>

definition want_response :: "SessionRequest \<Rightarrow> bool" where
  "want_response req = (case ctl_response req of None \<Rightarrow> True | Some b \<Rightarrow> b)"

text \<open>
  Modelled from the spec: \<^verbatim>\<open>RequestManager.response\<close> (\<^verbatim>\<open>engine/request.py\<close>) is not among
  the sources. It is the one way a response object is handed back to its originator; the
  model appends the reference and the object's content to the engine's \<open>posted\<close> list.
\<close>

definition req_manager_response :: "resp_ref \<Rightarrow> Engine \<Rightarrow> Engine" where
  "req_manager_response r eng = eng\<lparr>posted := posted eng @ [(r, responses eng r)]\<rparr>"

text \<open>
  \<^verbatim>\<open>def _response(self, resp, resp_type, data=None, err_msg=''):
      if resp.type == ResponseType.FINISH: return
      resp.type = resp_type; resp.data = data; resp.err_msg = err_msg
      self.req_manager.response(resp)\<close>
\<close>

definition Engine_response ::
  "Engine \<Rightarrow> resp_ref \<Rightarrow> ResponseType \<Rightarrow> RespData option \<Rightarrow> string \<Rightarrow> Engine" where
  "Engine_response eng r resp_type d msg =
     (if rtype (responses eng r) = FINISH then eng
      else req_manager_response r
             (eng\<lparr>responses := (responses eng)(r := \<lparr>rtype = resp_type, rdata = d, err_msg = msg\<rparr>)\<rparr>))"

text \<open>The response types handed back on one handle, oldest first.\<close>

definition posted_on :: "resp_ref \<Rightarrow> Engine \<Rightarrow> ResponseType list" where
  "posted_on r eng = map (\<lambda>p. rtype (snd p)) (filter (\<lambda>p. fst p = r) (posted eng))"

section \<open>Session control callbacks (engine.py, Engine._on_stop_session, Engine._on_end_session)\<close>

text \<open>
  Modelled from the spec: the scheduler (\<^verbatim>\<open>lmdeploy.pytorch.paging\<close>) is not among the
  sources. \<^verbatim>\<open>Scheduler._set_message_status(msg, status)\<close> moves a sequence to a state of its
  state machine; \<^verbatim>\<open>Scheduler.end_session(session_id)\<close> destroys the session with its
  sequences (the session leaves the session table); \<^verbatim>\<open>Scheduler.stop_session(session_id)\<close>
  moves every sequence of the session to STOPPED; \<^verbatim>\<open>Scheduler.add_sequence(msg)\<close> enters a
  new sequence in WAITING.
\<close>

definition set_message_status :: "SchedulerSequence \<Rightarrow> MessageStatus \<Rightarrow> SchedulerSequence" where
  "set_message_status msg st = msg\<lparr>status := st\<rparr>"

definition Scheduler_end_session :: "int \<Rightarrow> Engine \<Rightarrow> Engine" where
  "Scheduler_end_session sid eng = eng\<lparr>sessions := (sessions eng)(sid := None)\<rparr>"


definition Scheduler_add_sequence :: "SchedulerSequence \<Rightarrow> SchedulerSequence" where
  "Scheduler_add_sequence msg = set_message_status msg WAITING"




text \<open>
  \<^verbatim>\<open>def _on_end_session(self, reqs, **kwargs):
      for req in reqs:
          session_id = req.data['session_id']
          resp = req.data.get('response', True)
          resp_type = ResponseType.SESSION_NOT_EXIST
          if session_id in self.scheduler.sessions:
              msgs = list(self.scheduler.sessions[session_id].sequences.values())
              if len(msgs) > 0 and msgs[0].preserve_cache:
                  self.scheduler._set_message_status(msgs[0], MessageStatus.TO_BE_MIGRATED)
              else:
                  self.scheduler.end_session(session_id)
              resp_type = ResponseType.SUCCESS
          if resp: self._response(req.resp, resp_type)\<close>
\<close>

definition end_session_effect :: "int \<Rightarrow> SchedulerSession \<Rightarrow> Engine \<Rightarrow> Engine" where
  "end_session_effect session_id sess eng =
     (case sequences sess of
        m # ms \<Rightarrow>
          (if preserve_cache m
           then eng\<lparr>sessions := (sessions eng)
                  (session_id \<mapsto> sess\<lparr>sequences := set_message_status m TO_BE_MIGRATED # ms\<rparr>)\<rparr>
           else Scheduler_end_session session_id eng)
      | [] \<Rightarrow> Scheduler_end_session session_id eng)"

definition on_end_session_req :: "Engine \<Rightarrow> SessionRequest \<Rightarrow> Engine" where
  "on_end_session_req eng req =
     (let session_id = ctl_session_id req;
          want = want_response req;
          (eng1, resp_type) =
            (case sessions eng session_id of
               None \<Rightarrow> (eng, SESSION_NOT_EXIST)
             | Some sess \<Rightarrow> (end_session_effect session_id sess eng, SUCCESS))
      in if want then Engine_response eng1 (ctl_resp req) resp_type None [] else eng1)"

fun Engine_on_end_session :: "Engine \<Rightarrow> SessionRequest list \<Rightarrow> Engine" where
  "Engine_on_end_session eng [] = eng"
| "Engine_on_end_session eng (req # reqs) = Engine_on_end_session (on_end_session_req eng req) reqs"

section \<open>The response activity (engine.py, Engine._async_loop_send_responses)\<close>

text \<open>
  An \<^verbatim>\<open>InferOutput\<close>; its logits, meta and metrics are tensors and timing records that
  the response path only passes on, so the model leaves them out.
\<close>

record InferOutput =
  out_session_id :: int
  out_resp :: resp_ref
  out_token_ids :: "int list"
  finish :: bool
  out_cache_block_ids :: "int list option"




section \<open>A small engine state for concrete runs\<close>

definition idle_response :: Response where
  "idle_response = \<lparr>rtype = SUCCESS, rdata = None, err_msg = []\<rparr>"

definition ex_sampling :: SamplingParam where
  "ex_sampling =
     \<lparr>max_new_tokens = 3, min_new_tokens = 0, repetition_penalty = 1,
      logits_processors = None, response_format = None, out_logits = False\<rparr>"

definition ex_seq :: SchedulerSequence where
  "ex_seq =
     \<lparr>seq_session_id = 1, all_ids = [1, 2, 3, 4], num_new_tokens = 0,
      sampling_param = ex_sampling, adapter_name = None, return_logits = False,
      multimodals = None, input_embeddings = None, migration_request = None,
      resp_cache = False, preserve_cache = False, status = RUNNING, resp = Some 7,
      block_table = [0]\<rparr>"

text \<open>Session 1 holds one running sequence that answers on handle 7; session 2 is empty.\<close>

definition ex_engine :: Engine where
  "ex_engine =
     \<lparr>sessions = [1 \<mapsto> \<lparr>sequences = [ex_seq]\<rparr>, 2 \<mapsto> \<lparr>sequences = []\<rparr>],
      responses = (\<lambda>_. idle_response), posted = [],
      max_session_len = 8, migration_event = False,
      input_processor = None, disable_vision_encoder = False\<rparr>"


section \<open>Admission of messages (engine.py, Engine._on_add_message, Engine._add_message)\<close>

text \<open>
  \<^verbatim>\<open>def _get_max_session_len(self):
      session_len = self.scheduler_config.max_session_len
      max_tokens = (self.cache_config.num_gpu_blocks * self.cache_config.block_size)
      window_size = self.cache_config.window_size
      if window_size > 0 and window_size <= max_tokens: max_tokens = (1 << 63) - 1
      if session_len is None: session_len = max_tokens
      else: session_len = min(max_tokens, session_len)
      return session_len - self.cache_config.block_size\<close>

  The constructor stores the result in \<^verbatim>\<open>self.max_session_len\<close>.
\<close>

definition get_max_session_len :: "int option \<Rightarrow> int \<Rightarrow> int \<Rightarrow> int \<Rightarrow> int" where
  "get_max_session_len cfg_session_len num_gpu_blocks block_size window_size =
     (let max_tokens = num_gpu_blocks * block_size;
          max_tokens = (if window_size > 0 \<and> window_size \<le> max_tokens
                        then 2 ^ 63 - 1 else max_tokens);
          session_len = (case cfg_session_len of
                           None \<Rightarrow> max_tokens
                         | Some n \<Rightarrow> min max_tokens n)
      in session_len - block_size)"

text \<open>
  Modelled from the spec: \<^verbatim>\<open>SchedulerSequence\<close> and \<^verbatim>\<open>SchedulerSession\<close>
  (\<^verbatim>\<open>lmdeploy.pytorch.messages\<close>) are not among the sources. \<^verbatim>\<open>all_ids\<close> is the ordered,
  append-only sequence of the token ids a sequence holds (history and generated);
  \<^verbatim>\<open>num_all_tokens()\<close> and \<^verbatim>\<open>num_all_ids\<close> are its length; \<^verbatim>\<open>update_token_ids\<close> with
  \<^verbatim>\<open>append_tokens=True\<close> appends the new token ids and replaces the attachments;
  \<^verbatim>\<open>add_sequence\<close> creates a sequence from the tokens and options of a request, which
  begins in WAITING with no generated token and an empty block table.
\<close>

definition num_all_tokens :: "SchedulerSequence \<Rightarrow> int" where
  "num_all_tokens msg = int (length (all_ids msg))"

definition update_token_ids ::
  "SchedulerSequence \<Rightarrow> int list \<Rightarrow> opaque list option \<Rightarrow> opaque list option \<Rightarrow> SchedulerSequence" where
  "update_token_ids msg toks mm emb =
     msg\<lparr>all_ids := all_ids msg @ toks, multimodals := mm, input_embeddings := emb\<rparr>"

definition Session_add_sequence :: "SchedulerSession \<Rightarrow> MessageRequest \<Rightarrow> SchedulerSession" where
  "Session_add_sequence sess req =
     sess\<lparr>sequences := sequences sess @
       [\<lparr>seq_session_id = msg_session_id req, all_ids = token_ids req, num_new_tokens = 0,
         sampling_param = req_sampling_param req, adapter_name = req_adapter_name req,
         return_logits = out_logits (req_sampling_param req),
         multimodals = input_multimodals req, input_embeddings = req_input_embeddings req,
         migration_request = req_migration_request req,
         resp_cache = with_cache req, preserve_cache = req_preserve_cache req,
         status = WAITING, resp = None, block_table = []\<rparr>]\<rparr>"

text \<open>
  \<^verbatim>\<open>def __update_max_new_tokens(msg):
      max_session_len = self.max_session_len
      sampling_param = msg.sampling_param
      max_new_tokens = sampling_param.max_new_tokens
      num_all_tokens = msg.num_all_tokens()
      if max_new_tokens + num_all_tokens > max_session_len:
          sampling_param.max_new_tokens = max_session_len - num_all_tokens\<close>
\<close>

definition update_max_new_tokens :: "int \<Rightarrow> SchedulerSequence \<Rightarrow> SchedulerSequence" where
  "update_max_new_tokens msl msg =
     (let sp = sampling_param msg;
          mnt = max_new_tokens sp;
          n = num_all_tokens msg
      in if mnt + n > msl
         then msg\<lparr>sampling_param := sp\<lparr>max_new_tokens := msl - n\<rparr>\<rparr>
         else msg)"


definition add_message_req :: "Engine \<Rightarrow> MessageRequest \<Rightarrow> Engine outcome" where
  "add_message_req eng req =
     (let session_id = msg_session_id req in
      case sessions eng session_id of
        None \<Rightarrow> Raised KeyError eng
      | Some sess \<Rightarrow>
          (let sp = req_sampling_param req;
               ret_logits = out_logits sp
           in if length (sequences sess) = 0
              then
                (if \<not> (length (token_ids req) > 0) then Raised AssertionError eng
                 else
                   (case sequences (Session_add_sequence sess req) of
                      [] \<Rightarrow> Raised StopIteration eng
                    | msg # rest \<Rightarrow>
                        (let msg1 = update_max_new_tokens (max_session_len eng) msg;
                             msg2 = Scheduler_add_sequence msg1;
                             migrating = (req_migration_request req \<noteq> None);
                             msg3 = (if migrating
                                     then set_message_status msg2 WAITING_MIGRATION else msg2);
                             msg4 = msg3\<lparr>resp := Some (msg_resp req)\<rparr>
                         in Returned
                              (eng\<lparr>sessions := (sessions eng)
                                      (session_id \<mapsto> sess\<lparr>sequences := msg4 # rest\<rparr>),
                                    migration_event := (migrating \<or> migration_event eng)\<rparr>))))
              else
                (case sequences sess of
                   [] \<Rightarrow> Raised StopIteration eng
                 | msg # rest \<Rightarrow>
                     (let msg1 = update_token_ids msg (token_ids req)
                                   (input_multimodals req) (req_input_embeddings req);
                          msg2 = msg1\<lparr>num_new_tokens := 0, sampling_param := sp,
                                      return_logits := ret_logits, status := WAITING\<rparr>;
                          msg3 = update_max_new_tokens (max_session_len eng) msg2;
                          msg4 = msg3\<lparr>resp := Some (msg_resp req)\<rparr>
                      in Returned
                           (eng\<lparr>sessions := (sessions eng)
                                   (session_id \<mapsto> sess\<lparr>sequences := msg4 # rest\<rparr>)\<rparr>)))))"

fun Engine_add_message :: "Engine \<Rightarrow> MessageRequest list \<Rightarrow> Engine outcome" where
  "Engine_add_message eng [] = Returned eng"
| "Engine_add_message eng (req # reqs) =
     (case add_message_req eng req of
        Raised e eng1 \<Rightarrow> Raised e eng1
      | Returned eng1 \<Rightarrow> Engine_add_message eng1 reqs)"

text \<open>
  The loop of \<^verbatim>\<open>_on_add_message\<close>: a request for an unknown session is answered with
  SESSION_NOT_EXIST and dropped; every other request is kept, after its multimodal
  inputs, if any, went through the input processor.
\<close>

definition preprocess_req :: "Engine \<Rightarrow> MessageRequest \<Rightarrow> MessageRequest" where
  "preprocess_req eng req =
     (case input_multimodals req of
        None \<Rightarrow> req
      | Some mms \<Rightarrow>
          (case input_processor eng of
             None \<Rightarrow> req
           | Some preprocess_input \<Rightarrow>
               if length mms = 0 then req\<lparr>input_multimodals := None\<rparr>
               else if disable_vision_encoder eng then req\<lparr>input_multimodals := None\<rparr>
               else (let (ids, mms1) = preprocess_input (token_ids req) mms
                     in req\<lparr>token_ids := ids, input_multimodals := Some mms1\<rparr>)))"

fun valid_reqs :: "Engine \<Rightarrow> MessageRequest list \<Rightarrow> Engine \<times> MessageRequest list" where
  "valid_reqs eng [] = (eng, [])"
| "valid_reqs eng (req # reqs) =
     (if sessions eng (msg_session_id req) = None
      then valid_reqs (Engine_response eng (msg_resp req) SESSION_NOT_EXIST None []) reqs
      else (let (eng1, vs) = valid_reqs eng reqs in (eng1, preprocess_req eng req # vs)))"

definition Engine_on_add_message :: "Engine \<Rightarrow> MessageRequest list \<Rightarrow> Engine outcome" where
  "Engine_on_add_message eng reqs =
     (let (eng1, vs) = valid_reqs eng reqs
      in if length vs > 0 then Engine_add_message eng1 vs else Returned eng1)"

definition ex_msg :: "int \<Rightarrow> int list \<Rightarrow> resp_ref \<Rightarrow> MessageRequest" where
  "ex_msg session_id toks r =
     \<lparr>msg_session_id = session_id, token_ids = toks, req_sampling_param = ex_sampling,
      req_adapter_name = None, input_multimodals = None, req_input_embeddings = None,
      req_migration_request = None, with_cache = False, req_preserve_cache = False,
      msg_resp = r\<rparr>"

section \<open>Assembling forward inputs (engine.py, Engine._make_forward_inputs)\<close>

text \<open>
  Modelled from the spec: \<^verbatim>\<open>SamplingInputs.from_sampling_params\<close>
  (\<^verbatim>\<open>engine/logits_process.py\<close>) is not among the sources. It gathers the sampling
  parameters of the scheduled sequences into one batched descriptor, row by row; a
  parameter that is active for no sequence of the batch is \<^verbatim>\<open>None\<close> in the descriptor.
  A repetition penalty is active when it differs from the neutral factor 1.0.
\<close>

record SamplingInputs =
  batch_repetition_penalty :: "real list option"
  batch_logits_processors :: "opaque list option list"
  batch_response_formats :: "opaque option list"

definition from_sampling_params :: "SchedulerSequence list \<Rightarrow> SamplingInputs" where
  "from_sampling_params seqs =
     (let rps = map (\<lambda>seq. repetition_penalty (sampling_param seq)) seqs
      in \<lparr>batch_repetition_penalty = (if list_all (\<lambda>rp. rp = 1) rps then None else Some rps),
          batch_logits_processors = map (\<lambda>seq. logits_processors (sampling_param seq)) seqs,
          batch_response_formats = map (\<lambda>seq. response_format (sampling_param seq)) seqs\<rparr>)"

text \<open>Python's truth value of one row of logits processors: a list that is not empty.\<close>

definition truthy :: "opaque list option \<Rightarrow> bool" where
  "truthy row = (case row of None \<Rightarrow> False | Some ps \<Rightarrow> ps \<noteq> [])"

text \<open>
  \<^verbatim>\<open>def __gather_all_ids(seqs, sampling_inputs):
      if sampling_inputs.repetition_penalty is None and not any(sampling_inputs.logits_processors):
          return None
      batch = len(seqs)
      max_len = max(seq.num_all_ids for seq in seqs)
      pad_id = self.model_config.bos_token_id
      pad_id = 0 if pad_id is None else pad_id
      output = torch.full((batch, max_len), pad_id, dtype=torch.int64)
      for idx, seq in enumerate(seqs):
          h_len = seq.num_all_ids
          if h_len == 0: continue
          output[idx, -h_len:] = torch.from_numpy(seq.all_ids)
      return output\<close>

  The tensor is a list of rows. The caller has returned before on an empty batch, so
  \<^verbatim>\<open>max\<close> never sees an empty sequence; lengths are not negative, so folding \<open>max\<close>
  from 0 gives the same number on every batch that is not empty.
\<close>

definition gather_all_ids ::
  "int option \<Rightarrow> SchedulerSequence list \<Rightarrow> SamplingInputs \<Rightarrow> int list list option" where
  "gather_all_ids bos_token_id seqs sampling_inputs =
     (if batch_repetition_penalty sampling_inputs = None
         \<and> \<not> list_ex truthy (batch_logits_processors sampling_inputs)
      then None
      else
        (let max_len = foldr max (map (\<lambda>seq. length (all_ids seq)) seqs) 0;
             pad_id = (case bos_token_id of None \<Rightarrow> 0 | Some b \<Rightarrow> b)
         in Some (map (\<lambda>seq.
                    let h_len = length (all_ids seq)
                    in if h_len = 0 then replicate max_len pad_id
                       else replicate (max_len - h_len) pad_id @ all_ids seq) seqs)))"

text \<open>
  \<^verbatim>\<open>Scheduler.schedule(is_prefill, prealloc_size)\<close> is not among the sources. It returns
  a \<^verbatim>\<open>SchedulerOutput\<close> with the sequences picked for the step and the swap maps, and
  changes the scheduler. The model takes it as a parameter: a function from the two
  arguments and the scheduler state to the output and the next state.
\<close>

record SchedulerOutput =
  running :: "SchedulerSequence list"
  swap_in_map :: "(int \<times> int) list"
  swap_out_map :: "(int \<times> int) list"

text \<open>
  The dict \<^verbatim>\<open>_make_forward_inputs\<close> returns. Of \<^verbatim>\<open>inputs\<close> (the tensors that
  \<^verbatim>\<open>create_model_inputs\<close> builds for the executor) the model keeps the flag
  \<^verbatim>\<open>is_decoding = not is_prefill\<close>. Two entries are left out, which nothing below reads:
  \<^verbatim>\<open>guided_input_ids\<close> (a gather of the generated tokens for structured output) and
  \<^verbatim>\<open>sync_long_context\<close> (a comparison of the input tensor's size with
  \<^verbatim>\<open>max_prefill_token_num\<close>).
\<close>

record ForwardInputs =
  fi_running :: "SchedulerSequence list"
  is_decoding :: bool
  fi_swap_in_map :: "(int \<times> int) list"
  fi_swap_out_map :: "(int \<times> int) list"
  loop_count :: int
  fi_all_ids :: "int list list option"
  fi_sampling_inputs :: SamplingInputs
  num_appendable_ids :: "int list"
  num_ignore_eos :: "int list"
  fi_return_logits :: bool
  is_dummy :: bool

text \<open>
  \<^verbatim>\<open>scheduler_output = scheduler.schedule(is_prefill=prefill, prealloc_size=prefill_interval)
  if enable_empty and len(scheduler_output.running) == 0: return None
  # schedule decoding if no valid prefill reqs.
  if prefill and len(scheduler_output.running) == 0 and self.engine_config.role != EngineRole.Prefill:
      prefill = False
      scheduler_output = scheduler.schedule(is_prefill=prefill, prealloc_size=prefill_interval)
  num_loops = 1 if prefill else prefill_interval
  running = scheduler_output.running
  ...
  if len(running) == 0: return None
  ... return dict(running=running, inputs=inputs, ..., loop_count=num_loops, all_ids=all_ids, ...)\<close>
\<close>

definition build_forward_inputs ::
  "int option \<Rightarrow> bool \<Rightarrow> int \<Rightarrow> SchedulerOutput \<Rightarrow> ForwardInputs" where
  "build_forward_inputs bos_token_id prefill num_loops scheduler_output =
     (let seqs = running scheduler_output;
          sampling_inputs = from_sampling_params seqs
      in \<lparr>fi_running = seqs,
          is_decoding = (\<not> prefill),
          fi_swap_in_map = swap_in_map scheduler_output,
          fi_swap_out_map = swap_out_map scheduler_output,
          loop_count = num_loops,
          fi_all_ids = gather_all_ids bos_token_id seqs sampling_inputs,
          fi_sampling_inputs = sampling_inputs,
          num_appendable_ids =
            map (\<lambda>seq. max_new_tokens (sampling_param seq) - num_new_tokens seq) seqs,
          num_ignore_eos =
            map (\<lambda>seq. min_new_tokens (sampling_param seq) - num_new_tokens seq) seqs,
          fi_return_logits = list_ex return_logits seqs,
          is_dummy = False\<rparr>)"

definition make_forward_inputs ::
  "(bool \<Rightarrow> int \<Rightarrow> 's \<Rightarrow> SchedulerOutput \<times> 's) \<Rightarrow> EngineRole \<Rightarrow> int \<Rightarrow> int option
     \<Rightarrow> 's \<Rightarrow> bool \<Rightarrow> bool \<Rightarrow> ForwardInputs option \<times> 's" where
  "make_forward_inputs schedule role prefill_interval bos_token_id sched prefill enable_empty =
     (let (scheduler_output, sched1) = schedule prefill prefill_interval sched
      in if enable_empty \<and> length (running scheduler_output) = 0 then (None, sched1)
         else
           (let (prefill1, scheduler_output1, sched2) =
                  (if prefill \<and> length (running scheduler_output) = 0 \<and> role \<noteq> Prefill
                   then (let (out2, s2) = schedule False prefill_interval sched1
                         in (False, out2, s2))
                   else (prefill, scheduler_output, sched1));
                num_loops = (if prefill1 then 1 else prefill_interval)
            in if length (running scheduler_output1) = 0 then (None, sched2)
               else (Some (build_forward_inputs bos_token_id prefill1 num_loops scheduler_output1),
                     sched2)))"

text \<open>
  A scheduler for concrete runs: it has nothing to prefill and one running sequence to
  decode, and counts the calls of \<^verbatim>\<open>schedule\<close> in its state.
\<close>

definition ex_schedule :: "bool \<Rightarrow> int \<Rightarrow> nat \<Rightarrow> SchedulerOutput \<times> nat" where
  "ex_schedule is_prefill prealloc_size calls =
     (\<lparr>running = (if is_prefill then [] else [ex_seq]), swap_in_map = [], swap_out_map = []\<rparr>,
      Suc calls)"

section \<open>The migration activity (engine.py, Engine._async_loop_migration)\<close>

record MigrationExecutionBatch =
  batch_protocol :: opaque
  requests :: "(int \<times> (int \<times> int) list) list"

text \<open>
  What one pass of the migration loop works on: the engine's response store, the calls
  made to \<^verbatim>\<open>executor.migrate\<close> and \<^verbatim>\<open>engine_conn.zmq_send\<close> (both outside the core; the
  model records their arguments), and the response queue.
\<close>

record MigrationPass =
  mp_engine :: Engine
  migrate_calls :: "MigrationExecutionBatch list"
  zmq_sends :: "(int \<times> int) list"
  resp_que :: "(int \<times> InferOutput) list list"

text \<open>
  The first loop over \<^verbatim>\<open>migration_running\<close>:

  \<^verbatim>\<open>migration_request = msg.migration_request
  prefill_block_ids = migration_request.remote_block_ids
  decode_block_ids = list(self.scheduler.block_manager.get_block_table(msg=msg))
  if not migration_request.is_dummy_prefill:
      assert len(prefill_block_ids) == len(decode_block_ids), (
          f'#prefill block ids ({len(prefill_block_ids)}) must equal to '
          f'#decode block ids ({len(decode_block_ids)})'
          f'all id length: {len(msg.num_token_ids)}')
      migration_execution_requests.append((migration_request.remote_engine_id,
                                           list(zip(prefill_block_ids, decode_block_ids))))
      migration_inputs = MigrationExecutionBatch(protocol=migration_request.protocol,
                                                 requests=migration_execution_requests)
      await self.executor.migrate(migration_inputs)
      await self.engine_conn.zmq_send(remote_engine_id=..., remote_session_id=...)\<close>

  The block table of a sequence is the field \<open>block_table\<close> (the block manager is not
  among the sources). When the lengths differ the assertion fails; Python then evaluates
  the message, and \<^verbatim>\<open>len(msg.num_token_ids)\<close> of a number raises TypeError before the
  AssertionError is built. Either way an exception leaves the loop at this statement. A
  sequence without a migration request fails on the attribute access.
\<close>

datatype migration_error = LengthMismatch | MissingAttribute

fun migrate_seqs ::
  "MigrationPass \<Rightarrow> SchedulerSequence list \<Rightarrow> (migration_error \<times> MigrationPass) + MigrationPass" where
  "migrate_seqs st [] = Inr st"
| "migrate_seqs st (msg # msgs) =
     (case migration_request msg of
        None \<Rightarrow> Inl (MissingAttribute, st)
      | Some mr \<Rightarrow>
          (let prefill_block_ids = remote_block_ids mr;
               decode_block_ids = block_table msg
           in if \<not> is_dummy_prefill mr
              then
                (if length prefill_block_ids \<noteq> length decode_block_ids
                 then Inl (LengthMismatch, st)
                 else migrate_seqs
                        (st\<lparr>migrate_calls := migrate_calls st @
                               [\<lparr>batch_protocol = protocol mr,
                                 requests = [(remote_engine_id mr,
                                              zip prefill_block_ids decode_block_ids)]\<rparr>],
                             zmq_sends := zmq_sends st @
                               [(remote_engine_id mr, remote_session_id mr)]\<rparr>)
                        msgs)
              else migrate_seqs st msgs))"

text \<open>
  \<^verbatim>\<open>outputs[session_id] = out\<close> on a dict: a key that is there keeps its place and gets
  the new value, a new key goes to the end.
\<close>

fun dict_set :: "('k \<times> 'v) list \<Rightarrow> 'k \<Rightarrow> 'v \<Rightarrow> ('k \<times> 'v) list" where
  "dict_set [] k v = [(k, v)]"
| "dict_set ((k', v') # kvs) k v = (if k' = k then (k, v) # kvs else (k', v') # dict_set kvs k v)"

text \<open>
  \<^verbatim>\<open>update_running_migration([msg], np.array([token_ids]), [False], [None])\<close>: a sequence
  that is MIGRATION_LOCKED takes the token and counts it; \<^verbatim>\<open>stop\<close> is false here.
\<close>

definition update_running_migration_one :: "SchedulerSequence \<Rightarrow> int list \<Rightarrow> SchedulerSequence" where
  "update_running_migration_one msg token =
     (if status msg \<noteq> MIGRATION_LOCKED then msg
      else msg\<lparr>all_ids := all_ids msg @ token, num_new_tokens := num_new_tokens msg + 1\<rparr>)"

text \<open>
  The second loop: \<^verbatim>\<open>msg.resp.type = ResponseType.SUCCESS\<close>, an output with the remote's
  last token and \<^verbatim>\<open>finish=False\<close>, and the update of the sequence. It returns the store,
  the outputs and the sequences as they are afterwards. A sequence without a response
  handle fails on the attribute access.
\<close>

fun migration_outputs ::
  "Engine \<Rightarrow> (int \<times> InferOutput) list \<Rightarrow> SchedulerSequence list
     \<Rightarrow> (Engine \<times> (int \<times> InferOutput) list \<times> SchedulerSequence list) option" where
  "migration_outputs eng outs [] = Some (eng, outs, [])"
| "migration_outputs eng outs (msg # msgs) =
     (case (resp msg, migration_request msg) of
        (Some r, Some mr) \<Rightarrow>
          (let eng1 = eng\<lparr>responses := (responses eng)(r := (responses eng r)\<lparr>rtype := SUCCESS\<rparr>)\<rparr>;
               tokens = [remote_token_id mr];
               out = \<lparr>out_session_id = seq_session_id msg, out_resp = r,
                      out_token_ids = tokens, finish = False, out_cache_block_ids = None\<rparr>;
               msg1 = update_running_migration_one msg tokens
           in (case migration_outputs eng1 (dict_set outs (seq_session_id msg) out) msgs of
                 None \<Rightarrow> None
               | Some (eng2, outs2, msgs2) \<Rightarrow> Some (eng2, outs2, msg1 # msgs2)))
      | _ \<Rightarrow> None)"

text \<open>
  One pass of the loop body for a non-empty \<^verbatim>\<open>migration_running\<close>. Modelled from the
  spec: \<^verbatim>\<open>Scheduler.lock_running_migration\<close> moves the sequences to MIGRATION_LOCKED and
  \<^verbatim>\<open>Scheduler.unlock_running_migration\<close> returns them to RUNNING.
\<close>

definition migration_pass ::
  "MigrationPass \<Rightarrow> SchedulerSequence list
     \<Rightarrow> (migration_error \<times> MigrationPass) + (MigrationPass \<times> SchedulerSequence list)" where
  "migration_pass st migration_running =
     (case migrate_seqs st migration_running of
        Inl err \<Rightarrow> Inl err
      | Inr st1 \<Rightarrow>
          (let locked = map (\<lambda>m. set_message_status m MIGRATION_LOCKED) migration_running
           in case migration_outputs (mp_engine st1) [] locked of
                None \<Rightarrow> Inl (MissingAttribute, st1)
              | Some (eng2, outs, msgs2) \<Rightarrow>
                  Inr (st1\<lparr>mp_engine := eng2, resp_que := resp_que st1 @ [outs]\<rparr>,
                       map (\<lambda>m. set_message_status m RUNNING) msgs2)))"

text \<open>
  The loops run as asyncio tasks. \<^verbatim>\<open>_add_loop_tasks_done_callback\<close> gives every task the
  callback

  \<^verbatim>\<open>def __task_callback(task):
      try: task.result()
      except asyncio.CancelledError: ...; return
      except Exception: logger.exception(...)
      finally:
          for task in tasks:
              if not task.done(): task.cancel()\<close>

  so when one of the tasks ends, however it ends, every task that is not done is
  cancelled. None of the loops catches the cancellation.
\<close>

datatype task_state = Pending | Finished | Failed | Cancelled

definition task_done :: "task_state \<Rightarrow> bool" where
  "task_done t = (t \<noteq> Pending)"

definition task_callback :: "(string \<times> task_state) list \<Rightarrow> (string \<times> task_state) list" where
  "task_callback tasks = map (\<lambda>(name, t). (name, if \<not> task_done t then Cancelled else t)) tasks"

text \<open>
  The tasks of a Prefill or Decode engine while it serves, and what becomes of them
  when one pass of the migration loop is run: the loop goes on after a pass that
  returns, and the task fails on a pass that raises, which runs the callback.
\<close>

definition serving_tasks :: "(string \<times> task_state) list" where
  "serving_tasks =
     [(''MainLoop'', Pending), (''MainLoopPreprocessMessage'', Pending),
      (''MainLoopResponse'', Pending), (''MainLoopMigration'', Pending)]"

definition tasks_after_migration_pass ::
  "MigrationPass \<Rightarrow> SchedulerSequence list \<Rightarrow> (string \<times> task_state) list" where
  "tasks_after_migration_pass st migration_running =
     (case migration_pass st migration_running of
        Inr _ \<Rightarrow> serving_tasks
      | Inl _ \<Rightarrow> task_callback (map (\<lambda>(name, t).
                    (name, if name = ''MainLoopMigration'' then Failed else t)) serving_tasks))"

definition ex_migration :: "int list \<Rightarrow> MigrationRequest" where
  "ex_migration blocks =
     \<lparr>protocol = 0, remote_engine_id = 3, remote_session_id = 11, remote_block_ids = blocks,
      remote_token_id = 42, is_dummy_prefill = False\<rparr>"

definition ex_migrating_seq :: "int \<Rightarrow> resp_ref \<Rightarrow> int list \<Rightarrow> int list \<Rightarrow> SchedulerSequence" where
  "ex_migrating_seq session_id r remote local =
     ex_seq\<lparr>seq_session_id := session_id, migration_request := Some (ex_migration remote),
            status := WAITING_MIGRATION, resp := Some r, block_table := local\<rparr>"

definition ex_pass :: MigrationPass where
  "ex_pass = \<lparr>mp_engine = ex_engine, migrate_calls = [], zmq_sends = [], resp_que = []\<rparr>"

section \<open>Chat template resolution (model.py, best_match_model)\<close>















section \<open>Properties of the counting event\<close>

lemma event_inv_init: "event_inv CounterEvent_init"
  by (simp add: event_inv_def CounterEvent_init_def)

lemma event_inv_step: "event_inv ev \<Longrightarrow> event_inv (event_step ev c)"
  by (cases c)
     (auto simp: event_inv_def CounterEvent_set_def CounterEvent_clear_def is_set_def Let_def)

lemma event_inv_run: "event_inv ev \<Longrightarrow> event_inv (event_run ev cs)"
  by (induction cs arbitrary: ev) (simp_all add: event_inv_step)

lemma event_inv_after: "event_inv (event_after cs)"
  unfolding event_after_def by (rule event_inv_run [OF event_inv_init])

lemma clear_counter: "counter (CounterEvent_clear ev) = counter ev + 1"
  by (simp add: CounterEvent_clear_def Let_def)

lemma clear_flag: "event_inv ev \<Longrightarrow> \<not> is_set (CounterEvent_clear ev)"
  by (auto simp: event_inv_def CounterEvent_clear_def is_set_def Let_def)

lemma set_counter:
  "counter (CounterEvent_set ev) = (if counter ev > 0 then counter ev - 1 else counter ev)"
  by (simp add: CounterEvent_set_def Let_def)

lemma set_flag: "event_inv ev \<Longrightarrow> is_set (CounterEvent_set ev) = (counter (CounterEvent_set ev) = 0)"
  by (auto simp: event_inv_def CounterEvent_set_def is_set_def Let_def)

lemma event_trace_nested:
  "event_after [CallSet, CallClear, CallClear, CallSet] = \<lparr>counter = 1, event = False\<rparr>
   \<and> event_after [CallSet, CallClear, CallClear, CallSet, CallSet] = \<lparr>counter = 0, event = True\<rparr>"
  by (simp add: event_after_def CounterEvent_init_def CounterEvent_set_def CounterEvent_clear_def
      is_set_def Let_def)

text \<open>
  Claim C1. On the event object after any history of \<^verbatim>\<open>set\<close> and \<^verbatim>\<open>clear\<close> calls:
  \<^verbatim>\<open>clear()\<close> adds one to the counter and leaves the flag down, and so does a second
  \<^verbatim>\<open>clear()\<close> right after it; \<^verbatim>\<open>set()\<close> takes one from a positive counter (and leaves a
  zero counter alone), and afterwards the flag is up exactly when the counter is zero, so
  a \<^verbatim>\<open>set()\<close> that leaves the counter positive leaves the flag down.
\<close>

theorem counter_event_semantics:
  "counter (CounterEvent_clear (event_after cs)) = counter (event_after cs) + 1
   \<and> is_set (CounterEvent_clear (event_after cs)) = False
   \<and> is_set (CounterEvent_clear (CounterEvent_clear (event_after cs))) = False
   \<and> counter (CounterEvent_set (event_after cs)) =
       (if counter (event_after cs) > 0 then counter (event_after cs) - 1
        else counter (event_after cs))
   \<and> is_set (CounterEvent_set (event_after cs)) = (counter (CounterEvent_set (event_after cs)) = 0)"
proof -
  have inv: "event_inv (event_after cs)" by (rule event_inv_after)
  have inv2: "event_inv (CounterEvent_clear (event_after cs))"
    using event_inv_step [OF inv, of CallClear] by simp
  show ?thesis
    using clear_flag [OF inv] clear_flag [OF inv2] set_flag [OF inv]
    by (simp add: clear_counter set_counter)
qed

section \<open>Properties of the prefill/decode decision\<close>

lemma half_batches: "(real_of_int r < real_of_int m * 0.5) = (2 * r < m)"
proof -
  have "(real_of_int r < real_of_int m * 0.5) = (real_of_int (2 * r) < real_of_int m)"
    by (simp add: field_simps)
  also have "\<dots> = (2 * r < m)"
    by (rule of_int_less_iff)
  finally show ?thesis .
qed



section \<open>Properties of the response path\<close>










section \<open>Properties of the end-session callback\<close>

lemma sessions_response: "sessions (Engine_response eng r t d m) = sessions eng"
  by (simp add: Engine_response_def req_manager_response_def)

lemma posted_response:
  "posted (Engine_response eng r t d m) =
     (if rtype (responses eng r) = FINISH then posted eng
      else posted eng @ [(r, \<lparr>rtype = t, rdata = d, err_msg = m\<rparr>)])"
  by (simp add: Engine_response_def req_manager_response_def)

lemma end_session_effect_keeps:
  "posted (end_session_effect sid sess eng) = posted eng
   \<and> responses (end_session_effect sid sess eng) = responses eng"
  by (simp add: end_session_effect_def Scheduler_end_session_def split: list.split)

lemma end_session_effect_sessions:
  "sessions (end_session_effect sid sess eng) =
     (case sequences sess of
        m # ms \<Rightarrow>
          if preserve_cache m
          then (sessions eng)(sid \<mapsto> sess\<lparr>sequences := m\<lparr>status := TO_BE_MIGRATED\<rparr> # ms\<rparr>)
          else (sessions eng)(sid := None)
      | [] \<Rightarrow> (sessions eng)(sid := None))"
  by (simp add: end_session_effect_def Scheduler_end_session_def set_message_status_def
      split: list.split)

text \<open>
  Claim C7, as stated, fails: the response is posted only under \<^verbatim>\<open>if resp:\<close>, where
  \<^verbatim>\<open>resp = req.data.get('response', True)\<close>. Here session 1 exists, the request carries
  \<^verbatim>\<open>response=False\<close>: the session is destroyed and nothing is posted to the caller.
\<close>

theorem end_session_silent_counterexample:
  "posted (Engine_on_end_session ex_engine
             [\<lparr>ctl_session_id = 1, ctl_response = Some False, ctl_resp = 8\<rparr>]) = []
   \<and> sessions (Engine_on_end_session ex_engine
             [\<lparr>ctl_session_id = 1, ctl_response = Some False, ctl_resp = 8\<rparr>]) 1 = None"
  by (simp add: ex_engine_def ex_seq_def on_end_session_req_def end_session_effect_def
      Scheduler_end_session_def want_response_def Let_def)

text \<open>
  Claim C7, amended. On an EndSession request for an existing session: if the session's
  first sequence has \<^verbatim>\<open>preserve_cache\<close> set, that sequence moves to TO_BE_MIGRATED and the
  session stays in the session table; otherwise the session is removed from the table; in
  both cases the response type is SUCCESS. For a session id that does not exist the
  response type is SESSION_NOT_EXIST and the session table is unchanged. The response is
  posted on the request's handle when the request asks for one (\<^verbatim>\<open>data['response']\<close>, true
  when absent) and the handle's type is not FINISH; otherwise nothing is posted. Other
  sessions are never touched.
\<close>

theorem end_session_request:
  "sessions (on_end_session_req eng req) =
     (case sessions eng (ctl_session_id req) of
        None \<Rightarrow> sessions eng
      | Some sess \<Rightarrow>
          (case sequences sess of
             m # ms \<Rightarrow>
               if preserve_cache m
               then (sessions eng)
                      (ctl_session_id req \<mapsto> sess\<lparr>sequences := m\<lparr>status := TO_BE_MIGRATED\<rparr> # ms\<rparr>)
               else (sessions eng)(ctl_session_id req := None)
           | [] \<Rightarrow> (sessions eng)(ctl_session_id req := None)))
   \<and> posted (on_end_session_req eng req) =
     (if want_response req \<and> rtype (responses eng (ctl_resp req)) \<noteq> FINISH
      then posted eng @
             [(ctl_resp req,
               \<lparr>rtype = (if ctl_session_id req \<in> dom (sessions eng) then SUCCESS
                          else SESSION_NOT_EXIST),
                rdata = None, err_msg = []\<rparr>)]
      else posted eng)"
proof (cases "sessions eng (ctl_session_id req)")
  case None
  then have "ctl_session_id req \<notin> dom (sessions eng)" by (simp add: domIff)
  with None show ?thesis
    by (simp add: on_end_session_req_def Let_def sessions_response posted_response)
next
  case (Some sess)
  then have "ctl_session_id req \<in> dom (sessions eng)" by (simp add: domIff)
  with Some show ?thesis
    using end_session_effect_keeps [of "ctl_session_id req" sess eng]
    by (simp add: on_end_session_req_def Let_def sessions_response posted_response
        end_session_effect_sessions)
qed

theorem end_session_request_witness:
  "sessions (on_end_session_req ex_engine \<lparr>ctl_session_id = 1, ctl_response = None, ctl_resp = 8\<rparr>) 1
     = None
   \<and> posted (on_end_session_req ex_engine \<lparr>ctl_session_id = 1, ctl_response = None, ctl_resp = 8\<rparr>)
     = [(8, \<lparr>rtype = SUCCESS, rdata = None, err_msg = []\<rparr>)]
   \<and> posted (on_end_session_req ex_engine \<lparr>ctl_session_id = 5, ctl_response = None, ctl_resp = 8\<rparr>)
     = [(8, \<lparr>rtype = SESSION_NOT_EXIST, rdata = None, err_msg = []\<rparr>)]
   \<and> sessions (on_end_session_req
                  (ex_engine\<lparr>sessions := [1 \<mapsto> \<lparr>sequences = [ex_seq\<lparr>preserve_cache := True\<rparr>]\<rparr>]\<rparr>)
                  \<lparr>ctl_session_id = 1, ctl_response = None, ctl_resp = 8\<rparr>) 1
     = Some \<lparr>sequences = [ex_seq\<lparr>preserve_cache := True, status := TO_BE_MIGRATED\<rparr>]\<rparr>"
  using end_session_request [of ex_engine "\<lparr>ctl_session_id = 1, ctl_response = None, ctl_resp = 8\<rparr>"]
        end_session_request [of ex_engine "\<lparr>ctl_session_id = 5, ctl_response = None, ctl_resp = 8\<rparr>"]
        end_session_request
          [of "ex_engine\<lparr>sessions := [1 \<mapsto> \<lparr>sequences = [ex_seq\<lparr>preserve_cache := True\<rparr>]\<rparr>]\<rparr>"
              "\<lparr>ctl_session_id = 1, ctl_response = None, ctl_resp = 8\<rparr>"]
  by (simp add: ex_engine_def ex_seq_def want_response_def idle_response_def)

section \<open>Properties of admission\<close>

lemma add_message_req_posted: "posted (state_of (add_message_req eng req)) = posted eng"
  by (simp add: add_message_req_def Let_def split: option.split list.split)

lemma Engine_add_message_posted: "posted (state_of (Engine_add_message eng reqs)) = posted eng"
proof (induction reqs arbitrary: eng)
  case Nil
  then show ?case by simp
next
  case (Cons req reqs)
  show ?case
  proof (cases "add_message_req eng req")
    case (Returned eng1)
    then have "posted eng1 = posted eng"
      using add_message_req_posted [of eng req] by simp
    with Returned Cons.IH [of eng1] show ?thesis by simp
  next
    case (Raised e eng1)
    then have "posted eng1 = posted eng"
      using add_message_req_posted [of eng req] by simp
    with Raised show ?thesis by simp
  qed
qed

lemma Engine_add_message_append:
  "Engine_add_message eng pre = Returned eng1 \<Longrightarrow>
   Engine_add_message eng (pre @ reqs) = Engine_add_message eng1 reqs"
proof (induction pre arbitrary: eng)
  case Nil
  then show ?case by simp
next
  case (Cons req pre)
  then show ?case by (cases "add_message_req eng req") simp_all
qed

lemma empty_first_message:
  "sessions eng (msg_session_id req) = Some sess \<Longrightarrow> sequences sess = [] \<Longrightarrow>
   token_ids req = [] \<Longrightarrow> add_message_req eng req = Raised AssertionError eng"
  by (simp add: add_message_req_def Let_def)

text \<open>
  Claim C3, as stated, fails: an empty token list for the first sequence of a session
  fails \<^verbatim>\<open>assert len(req.data['token_ids']) > 0\<close>, and the AssertionError leaves
  \<^verbatim>\<open>_add_message\<close> and \<^verbatim>\<open>_on_add_message\<close>. Here the batch holds an empty message for the
  empty session 2 and a well-formed message for session 1: the callback raises, nothing
  is posted to either caller, and the message for session 1 is never applied.
\<close>

theorem empty_input_raises_counterexample:
  "Engine_on_add_message ex_engine [ex_msg 2 [] 9, ex_msg 1 [5] 10]
     = Raised AssertionError ex_engine
   \<and> posted ex_engine = []"
  by (simp add: Engine_on_add_message_def add_message_req_def preprocess_req_def
      ex_engine_def ex_msg_def Let_def)

text \<open>
  Claim C3, amended. An AddMessage request that carries an empty token list and would
  create the first sequence of its session fails the assertion in \<^verbatim>\<open>Engine._add_message\<close>:
  the call raises AssertionError at that request, the requests before it in the batch
  stay admitted, the request itself changes nothing, the requests after it are not
  processed, and \<^verbatim>\<open>_add_message\<close> posts no response on any handle.
\<close>

theorem empty_first_message_raises:
  "Engine_add_message eng pre = Returned eng1 \<Longrightarrow>
   sessions eng1 (msg_session_id req) = Some sess \<Longrightarrow> sequences sess = [] \<Longrightarrow>
   token_ids req = [] \<Longrightarrow>
   Engine_add_message eng (pre @ req # rest) = Raised AssertionError eng1
   \<and> posted eng1 = posted eng"
proof -
  assume pre: "Engine_add_message eng pre = Returned eng1"
    and sess: "sessions eng1 (msg_session_id req) = Some sess" "sequences sess = []"
    and toks: "token_ids req = []"
  have "Engine_add_message eng (pre @ req # rest) = Engine_add_message eng1 (req # rest)"
    by (rule Engine_add_message_append [OF pre])
  also have "\<dots> = Raised AssertionError eng1"
    using empty_first_message [OF sess toks] by simp
  finally have raised: "Engine_add_message eng (pre @ req # rest) = Raised AssertionError eng1" .
  have "posted eng1 = posted eng"
    using Engine_add_message_posted [of eng pre] pre by simp
  with raised show ?thesis by simp
qed

theorem empty_first_message_raises_witness:
  "Engine_add_message ex_engine [ex_msg 1 [5] 10]
      = Returned (state_of (Engine_add_message ex_engine [ex_msg 1 [5] 10]))
   \<and> Engine_add_message ex_engine ([ex_msg 1 [5] 10] @ ex_msg 2 [] 9 # [ex_msg 1 [6] 11])
      = Raised AssertionError (state_of (Engine_add_message ex_engine [ex_msg 1 [5] 10]))"
proof -
  have pre: "Engine_add_message ex_engine [ex_msg 1 [5] 10]
      = Returned (state_of (Engine_add_message ex_engine [ex_msg 1 [5] 10]))"
    by (simp add: add_message_req_def ex_engine_def ex_msg_def ex_seq_def Let_def)
  have sess: "sessions (state_of (Engine_add_message ex_engine [ex_msg 1 [5] 10]))
                (msg_session_id (ex_msg 2 [] 9)) = Some \<lparr>sequences = []\<rparr>"
    by (simp add: add_message_req_def ex_engine_def ex_msg_def ex_seq_def Let_def)
  have toks: "token_ids (ex_msg 2 [] 9) = []"
    by (simp add: ex_msg_def)
  show ?thesis
    using pre empty_first_message_raises [OF pre sess _ toks, of "[ex_msg 1 [6] 11]"]
    by simp
qed
lemma update_max_new_tokens_tokens:
  "num_all_tokens (update_max_new_tokens msl msg) = num_all_tokens msg"
  by (simp add: update_max_new_tokens_def num_all_tokens_def Let_def)

lemma update_max_new_tokens_value:
  "max_new_tokens (sampling_param (update_max_new_tokens msl msg)) =
     (if max_new_tokens (sampling_param msg) + num_all_tokens msg > msl
      then msl - num_all_tokens msg
      else max_new_tokens (sampling_param msg))"
  by (simp add: update_max_new_tokens_def Let_def)

lemma update_max_new_tokens_cap:
  "max_new_tokens (sampling_param (update_max_new_tokens msl msg))
     + num_all_tokens (update_max_new_tokens msl msg) \<le> msl"
  by (simp add: update_max_new_tokens_tokens update_max_new_tokens_value)

lemma get_max_session_len_le:
  "get_max_session_len (Some n) num_gpu_blocks block_size window_size \<le> n - block_size"
  by (simp add: get_max_session_len_def Let_def)




section \<open>Properties of the forward inputs\<close>








text \<open>
  Claim C10, as stated, fails: \<^verbatim>\<open>if enable_empty and len(scheduler_output.running) == 0:
  return None\<close> stands before the re-schedule. Here a Hybrid engine is asked for a prefill
  step by the prefetch path (\<^verbatim>\<open>enable_empty=True\<close>); the prefill schedule is empty and a
  decode schedule would hold one sequence, yet no inputs are returned and \<^verbatim>\<open>schedule\<close> was
  called once only.
\<close>

theorem prefetch_does_not_reschedule_counterexample:
  "make_forward_inputs ex_schedule Hybrid 16 None 0 True True = (None, 1)
   \<and> running (fst (ex_schedule True 16 0)) = []
   \<and> running (fst (ex_schedule False 16 1)) = [ex_seq]"
  by (simp add: make_forward_inputs_def ex_schedule_def Let_def)

text \<open>
  Claim C10, amended. When a prefill step is requested and the prefill schedule yields
  an empty running set: with \<^verbatim>\<open>enable_empty\<close> set (the prefetch path) or on a Prefill-role
  engine no forward inputs are returned and the scheduler is not asked again; with
  \<^verbatim>\<open>enable_empty\<close> unset, an engine whose role is not Prefill schedules again at once with
  \<^verbatim>\<open>is_prefill=False\<close>, and returns the inputs of that decode batch, with \<^verbatim>\<open>loop_count\<close>
  equal to \<^verbatim>\<open>prefill_interval\<close>, unless the decode schedule is empty too, in which case it
  returns no inputs.
\<close>

theorem empty_prefill_reschedules_decode:
  "schedule True prefill_interval sched = (pout, psched) \<Longrightarrow> running pout = [] \<Longrightarrow>
   schedule False prefill_interval psched = (dout, dsched) \<Longrightarrow>
   make_forward_inputs schedule role prefill_interval bos sched True enable_empty =
     (if enable_empty \<or> role = Prefill then (None, psched)
      else if running dout = [] then (None, dsched)
      else (Some (build_forward_inputs bos False prefill_interval dout), dsched))
   \<and> loop_count (build_forward_inputs bos False prefill_interval dout) = prefill_interval
   \<and> is_decoding (build_forward_inputs bos False prefill_interval dout)
   \<and> fi_running (build_forward_inputs bos False prefill_interval dout) = running dout"
  by (simp add: make_forward_inputs_def build_forward_inputs_def Let_def)

theorem empty_prefill_reschedules_decode_witness:
  "make_forward_inputs ex_schedule Hybrid 16 None 0 True False
     = (Some (build_forward_inputs None False 16
                \<lparr>running = [ex_seq], swap_in_map = [], swap_out_map = []\<rparr>), 2)
   \<and> make_forward_inputs ex_schedule Prefill 16 None 0 True False = (None, 1)"
proof -
  have s1: "ex_schedule True 16 0 = (\<lparr>running = [], swap_in_map = [], swap_out_map = []\<rparr>, 1)"
    by (simp add: ex_schedule_def)
  have s2: "ex_schedule False 16 1
              = (\<lparr>running = [ex_seq], swap_in_map = [], swap_out_map = []\<rparr>, 2)"
    by (simp add: ex_schedule_def numeral_2_eq_2)
  show ?thesis
    using empty_prefill_reschedules_decode
            [where schedule = ex_schedule and prefill_interval = 16 and sched = 0
               and pout = "\<lparr>running = [], swap_in_map = [], swap_out_map = []\<rparr>"
               and psched = 1
               and dout = "\<lparr>running = [ex_seq], swap_in_map = [], swap_out_map = []\<rparr>"
               and dsched = 2 and role = Hybrid and bos = None and enable_empty = False]
          empty_prefill_reschedules_decode
            [where schedule = ex_schedule and prefill_interval = 16 and sched = 0
               and pout = "\<lparr>running = [], swap_in_map = [], swap_out_map = []\<rparr>"
               and psched = 1
               and dout = "\<lparr>running = [ex_seq], swap_in_map = [], swap_out_map = []\<rparr>"
               and dsched = 2 and role = Prefill and bos = None and enable_empty = False]
          s1 s2
    by simp
qed

section \<open>Properties of the migration activity\<close>

lemma migrate_seqs_keeps:
  "migrate_seqs st msgs = Inr st1 \<Longrightarrow>
   mp_engine st1 = mp_engine st \<and> resp_que st1 = resp_que st"
proof (induction msgs arbitrary: st)
  case Nil
  then show ?case by simp
next
  case (Cons msg msgs)
  show ?case
  proof (cases "migration_request msg")
    case None
    with Cons.prems show ?thesis by simp
  next
    case (Some mr)
    show ?thesis
    proof (cases "is_dummy_prefill mr")
      case True
      with Some Cons.prems have "migrate_seqs st msgs = Inr st1" by (simp add: Let_def)
      from Cons.IH [OF this] show ?thesis .
    next
      case False
      define st' where "st' = st\<lparr>migrate_calls := migrate_calls st @
               [\<lparr>batch_protocol = protocol mr,
                 requests = [(remote_engine_id mr, zip (remote_block_ids mr) (block_table msg))]\<rparr>],
             zmq_sends := zmq_sends st @ [(remote_engine_id mr, remote_session_id mr)]\<rparr>"
      from False Some Cons.prems have "migrate_seqs st' msgs = Inr st1"
        by (simp add: Let_def st'_def split: if_splits)
      from Cons.IH [OF this] show ?thesis by (simp add: st'_def)
    qed
  qed
qed

lemma migrate_seqs_append:
  "migrate_seqs st pre = Inr st1 \<Longrightarrow> migrate_seqs st (pre @ msgs) = migrate_seqs st1 msgs"
proof (induction pre arbitrary: st)
  case Nil
  then show ?case by simp
next
  case (Cons msg pre)
  then show ?case
    by (auto simp: Let_def split: option.splits if_splits)
qed

lemma migrate_seqs_mismatch:
  "migration_request msg = Some mr \<Longrightarrow> \<not> is_dummy_prefill mr \<Longrightarrow>
   length (remote_block_ids mr) \<noteq> length (block_table msg) \<Longrightarrow>
   migrate_seqs st (msg # rest) = Inl (LengthMismatch, st)"
  by (simp add: Let_def)

lemma tasks_after_failure:
  "migration_pass st msgs = Inl err \<Longrightarrow>
   tasks_after_migration_pass st msgs =
     [(''MainLoop'', Cancelled), (''MainLoopPreprocessMessage'', Cancelled),
      (''MainLoopResponse'', Cancelled), (''MainLoopMigration'', Failed)]"
  by (simp add: tasks_after_migration_pass_def serving_tasks_def task_callback_def task_done_def)

text \<open>
  Claim C4, as stated, fails: the mismatch is an assertion, and nothing catches it. Here
  the one sequence of the batch answers on handle 7, has three remote block ids and two
  local ones: the pass raises, nothing is posted on handle 7 and nothing is queued, and
  the failed migration task takes the main loop, the preprocess loop and the response
  loop with it.
\<close>

theorem migration_mismatch_counterexample:
  "migration_pass ex_pass [ex_migrating_seq 1 7 [7, 8, 9] [2, 5]] = Inl (LengthMismatch, ex_pass)
   \<and> posted_on 7 (mp_engine ex_pass) = []
   \<and> resp_que ex_pass = []
   \<and> tasks_after_migration_pass ex_pass [ex_migrating_seq 1 7 [7, 8, 9] [2, 5]] =
       [(''MainLoop'', Cancelled), (''MainLoopPreprocessMessage'', Cancelled),
        (''MainLoopResponse'', Cancelled), (''MainLoopMigration'', Failed)]"
  by (simp add: migration_pass_def tasks_after_migration_pass_def serving_tasks_def
      task_callback_def task_done_def ex_migrating_seq_def ex_migration_def ex_pass_def
      ex_engine_def posted_on_def Let_def)

text \<open>
  Claim C4, amended. During migration of a non-dummy-prefill sequence, if the number of
  remote prefill block ids differs from the number of local decode block ids, the
  assertion fails and an exception leaves the migration loop at that sequence: the
  sequences before it in the batch have been migrated, no migration is issued for it or
  for the sequences after it, no response is posted or queued for any sequence of the
  batch, and the migration task ends with the exception, on which the done-callback
  cancels every other loop task of the engine.
\<close>

theorem migration_mismatch_raises:
  "migrate_seqs st pre = Inr st1 \<Longrightarrow>
   migration_request msg = Some mr \<Longrightarrow> \<not> is_dummy_prefill mr \<Longrightarrow>
   length (remote_block_ids mr) \<noteq> length (block_table msg) \<Longrightarrow>
   migration_pass st (pre @ msg # rest) = Inl (LengthMismatch, st1)
   \<and> mp_engine st1 = mp_engine st
   \<and> resp_que st1 = resp_que st
   \<and> tasks_after_migration_pass st (pre @ msg # rest) =
       [(''MainLoop'', Cancelled), (''MainLoopPreprocessMessage'', Cancelled),
        (''MainLoopResponse'', Cancelled), (''MainLoopMigration'', Failed)]"
proof -
  assume pre: "migrate_seqs st pre = Inr st1"
    and mr: "migration_request msg = Some mr" "\<not> is_dummy_prefill mr"
            "length (remote_block_ids mr) \<noteq> length (block_table msg)"
  have "migrate_seqs st (pre @ msg # rest) = migrate_seqs st1 (msg # rest)"
    by (rule migrate_seqs_append [OF pre])
  also have "\<dots> = Inl (LengthMismatch, st1)"
    by (rule migrate_seqs_mismatch [OF mr])
  finally have "migration_pass st (pre @ msg # rest) = Inl (LengthMismatch, st1)"
    by (simp add: migration_pass_def)
  with migrate_seqs_keeps [OF pre] tasks_after_failure [of st "pre @ msg # rest"]
  show ?thesis by simp
qed

theorem migration_mismatch_raises_witness:
  "migration_pass ex_pass
     ([ex_migrating_seq 2 9 [4, 6] [1, 3]] @ ex_migrating_seq 1 7 [7, 8, 9] [2, 5] # [])
   = Inl (LengthMismatch,
          ex_pass\<lparr>migrate_calls := [\<lparr>batch_protocol = 0, requests = [(3, [(4, 1), (6, 3)])]\<rparr>],
                  zmq_sends := [(3, 11)]\<rparr>)"
proof -
  have pre: "migrate_seqs ex_pass [ex_migrating_seq 2 9 [4, 6] [1, 3]]
     = Inr (ex_pass\<lparr>migrate_calls := [\<lparr>batch_protocol = 0, requests = [(3, [(4, 1), (6, 3)])]\<rparr>],
                  zmq_sends := [(3, 11)]\<rparr>)"
    by (simp add: ex_migrating_seq_def ex_migration_def ex_pass_def Let_def)
  have mr: "migration_request (ex_migrating_seq 1 7 [7, 8, 9] [2, 5]) = Some (ex_migration [7, 8, 9])"
    by (simp add: ex_migrating_seq_def)
  have nd: "\<not> is_dummy_prefill (ex_migration [7, 8, 9])"
    by (simp add: ex_migration_def)
  have len: "length (remote_block_ids (ex_migration [7, 8, 9]))
               \<noteq> length (block_table (ex_migrating_seq 1 7 [7, 8, 9] [2, 5]))"
    by (simp add: ex_migrating_seq_def ex_migration_def)
  show ?thesis
    using migration_mismatch_raises [OF pre mr nd len, of "[]"] by simp
qed

section \<open>Properties of chat template resolution\<close>




end
